theory Spec2Isabelle
  imports Complex_Main
begin

section \<open>Python values and the operations annual\_engine.py applies to them\<close>

text \<open>
  The module is dynamically typed: the dictionaries \<open>svc\<close> and \<open>wage\<close> and the arguments
  \<open>granted_days\<close>, \<open>used_days\<close> carry whatever the caller passes. A value is \<open>None\<close>, an
  \<open>int\<close> (unbounded), a \<open>float\<close> or a \<open>str\<close>. A float is modelled by the exact rational
  number it denotes: binary rounding, the infinities and nan are outside the model. A
  \<open>str\<close> is the list of the bytes of its UTF-8 encoding, so the Korean unit markers are
  three bytes each and substring search agrees with Python's search on code points.
  An exception is a value \<open>Inl e\<close> of the result type \<open>pyerr + 'a\<close>.
\<close>

datatype pyerr = TypeError | ValueError | ZeroDivisionError | IndexError | KeyError

datatype pyval = PNone | PInt int | PFloat rat | PStr string

text \<open>The number a numeric value denotes; \<open>None\<close> for a value that is no number.\<close>

fun num_of :: "pyval \<Rightarrow> rat option" where
  "num_of (PInt n) = Some (of_int n)"
| "num_of (PFloat q) = Some q"
| "num_of PNone = None"
| "num_of (PStr s) = None"

definition is_num :: "pyval \<Rightarrow> bool" where
  "is_num v = (num_of v \<noteq> None)"

text \<open>Code point order on strings, which is byte order on their UTF-8 encodings.\<close>

fun str_lt :: "string \<Rightarrow> string \<Rightarrow> bool" where
  "str_lt [] [] = False"
| "str_lt [] (y # ys) = True"
| "str_lt (x # xs) [] = False"
| "str_lt (x # xs) (y # ys) =
     ((of_char x :: nat) < of_char y \<or> (x = y \<and> str_lt xs ys))"

text \<open>\<open>a < b\<close>: numbers compare by value, strings by code points, any other pair raises.\<close>

fun py_lt :: "pyval \<Rightarrow> pyval \<Rightarrow> pyerr + bool" where
  "py_lt (PInt a) (PInt b) = Inr (a < b)"
| "py_lt (PInt a) (PFloat b) = Inr (of_int a < b)"
| "py_lt (PFloat a) (PInt b) = Inr (a < of_int b)"
| "py_lt (PFloat a) (PFloat b) = Inr (a < b)"
| "py_lt (PStr a) (PStr b) = Inr (str_lt a b)"
| "py_lt a b = Inl TypeError"

text \<open>\<open>a > b\<close> is evaluated by Python as \<open>b < a\<close> on these types.\<close>

definition py_gt :: "pyval \<Rightarrow> pyval \<Rightarrow> pyerr + bool" where
  "py_gt a b = py_lt b a"

text \<open>\<open>a >= b\<close>.\<close>

fun py_ge :: "pyval \<Rightarrow> pyval \<Rightarrow> pyerr + bool" where
  "py_ge (PInt a) (PInt b) = Inr (b \<le> a)"
| "py_ge (PInt a) (PFloat b) = Inr (b \<le> of_int a)"
| "py_ge (PFloat a) (PInt b) = Inr (of_int b \<le> a)"
| "py_ge (PFloat a) (PFloat b) = Inr (b \<le> a)"
| "py_ge (PStr a) (PStr b) = Inr (\<not> str_lt a b)"
| "py_ge a b = Inl TypeError"

text \<open>
  The builtins \<open>min(a, b)\<close> and \<open>max(a, b)\<close> keep the first argument unless the second
  is strictly smaller (greater); the comparison is where they can raise.
\<close>

definition py_min :: "pyval \<Rightarrow> pyval \<Rightarrow> pyerr + pyval" where
  "py_min a b = (case py_lt b a of Inl e \<Rightarrow> Inl e | Inr c \<Rightarrow> Inr (if c then b else a))"

definition py_max :: "pyval \<Rightarrow> pyval \<Rightarrow> pyerr + pyval" where
  "py_max a b = (case py_gt b a of Inl e \<Rightarrow> Inl e | Inr c \<Rightarrow> Inr (if c then b else a))"

fun py_add :: "pyval \<Rightarrow> pyval \<Rightarrow> pyerr + pyval" where
  "py_add (PInt a) (PInt b) = Inr (PInt (a + b))"
| "py_add (PInt a) (PFloat b) = Inr (PFloat (of_int a + b))"
| "py_add (PFloat a) (PInt b) = Inr (PFloat (a + of_int b))"
| "py_add (PFloat a) (PFloat b) = Inr (PFloat (a + b))"
| "py_add (PStr a) (PStr b) = Inr (PStr (a @ b))"
| "py_add a b = Inl TypeError"

fun py_sub :: "pyval \<Rightarrow> pyval \<Rightarrow> pyerr + pyval" where
  "py_sub (PInt a) (PInt b) = Inr (PInt (a - b))"
| "py_sub (PInt a) (PFloat b) = Inr (PFloat (of_int a - b))"
| "py_sub (PFloat a) (PInt b) = Inr (PFloat (a - of_int b))"
| "py_sub (PFloat a) (PFloat b) = Inr (PFloat (a - b))"
| "py_sub a b = Inl TypeError"



text \<open>\<open>a // b\<close>: floor division, an int on two ints and a float otherwise.\<close>

fun py_floordiv :: "pyval \<Rightarrow> pyval \<Rightarrow> pyerr + pyval" where
  "py_floordiv (PInt a) (PInt b) =
     (if b = 0 then Inl ZeroDivisionError else Inr (PInt (a div b)))"
| "py_floordiv (PInt a) (PFloat b) =
     (if b = 0 then Inl ZeroDivisionError else Inr (PFloat (of_int \<lfloor>of_int a / b\<rfloor>)))"
| "py_floordiv (PFloat a) (PInt b) =
     (if b = 0 then Inl ZeroDivisionError else Inr (PFloat (of_int \<lfloor>a / of_int b\<rfloor>)))"
| "py_floordiv (PFloat a) (PFloat b) =
     (if b = 0 then Inl ZeroDivisionError else Inr (PFloat (of_int \<lfloor>a / b\<rfloor>)))"
| "py_floordiv a b = Inl TypeError"

subsection \<open>Text: whitespace, decimal literals, \<open>in\<close> and \<open>split\<close>\<close>

text \<open>
  The whitespace \<open>str.strip()\<close>, \<open>float()\<close> and \<open>int()\<close> remove, and the decimal digits:
  the ASCII ones. Whitespace and digits beyond ASCII are outside the model.
\<close>

definition is_space :: "char \<Rightarrow> bool" where
  "is_space c = (c \<in> set [CHR 0x09, CHR 0x0A, CHR 0x0B, CHR 0x0C, CHR 0x0D,
                           CHR 0x1C, CHR 0x1D, CHR 0x1E, CHR 0x1F, CHR 0x20])"

definition strip :: "string \<Rightarrow> string" where
  "strip s = rev (dropWhile is_space (rev (dropWhile is_space s)))"

definition is_digit :: "char \<Rightarrow> bool" where
  "is_digit c = (48 \<le> (of_char c :: nat) \<and> (of_char c :: nat) \<le> 57)"

text \<open>The number a run of digits denotes, most significant digit first.\<close>

fun digits_val :: "nat \<Rightarrow> string \<Rightarrow> nat" where
  "digits_val acc [] = acc"
| "digits_val acc (c # cs) = digits_val (10 * acc + (of_char c - 48)) cs"

text \<open>An optional sign in front of a literal: the sign and the rest.\<close>

fun take_sign :: "string \<Rightarrow> int \<times> string" where
  "take_sign [] = (1, [])"
| "take_sign (c # cs) =
     (if c = CHR ''-'' then (-1, cs) else if c = CHR ''+'' then (1, cs) else (1, c # cs))"

text \<open>
  The exponent part of a float literal, the text after the mantissa: nothing, or
  \<open>e\<close>/\<open>E\<close>, an optional sign and at least one digit, up to the end of the text.
\<close>

definition exponent_of :: "string \<Rightarrow> pyerr + int" where
  "exponent_of s =
     (case s of
        [] \<Rightarrow> Inr 0
      | c # cs \<Rightarrow>
          if c = CHR ''e'' \<or> c = CHR ''E'' then
            (case take_sign cs of
               (sg, ds) \<Rightarrow>
                 if ds \<noteq> [] \<and> list_all is_digit ds
                 then Inr (sg * int (digits_val 0 ds))
                 else Inl ValueError)
          else Inl ValueError)"

text \<open>
  \<open>float(s)\<close> on a string: surrounding whitespace is dropped; an optional sign, digits
  with an optional decimal point (at least one digit on one side of it) and an optional
  exponent give the number; any other text raises \<open>ValueError\<close>. The spellings
  \<open>inf\<close>, \<open>nan\<close> and digit groups joined by underscores, which Python also accepts, are
  outside the model.
\<close>

definition py_float :: "string \<Rightarrow> pyerr + rat" where
  "py_float s =
     (case take_sign (strip s) of
        (sg, u) \<Rightarrow>
          let ip = takeWhile is_digit u;
              r1 = dropWhile is_digit u;
              fp = (case r1 of [] \<Rightarrow> [] | c # cs \<Rightarrow>
                      if c = CHR ''.'' then takeWhile is_digit cs else []);
              r2 = (case r1 of [] \<Rightarrow> [] | c # cs \<Rightarrow>
                      if c = CHR ''.'' then dropWhile is_digit cs else r1)
          in if ip = [] \<and> fp = [] then Inl ValueError
             else (case exponent_of r2 of
                     Inl e \<Rightarrow> Inl e
                   | Inr ex \<Rightarrow>
                       Inr (of_int sg
                            * (of_nat (digits_val 0 ip)
                               + of_nat (digits_val 0 fp) / 10 ^ length fp)
                            * 10 powi ex)))"

text \<open>
  \<open>int(v)\<close>: an int is itself, a float is truncated towards zero, a string must be an
  optionally signed run of digits between whitespace (digit groups joined by underscores
  are outside the model), \<open>None\<close> raises \<open>TypeError\<close>.
\<close>

definition trunc :: "rat \<Rightarrow> int" where
  "trunc q = (if 0 \<le> q then \<lfloor>q\<rfloor> else \<lceil>q\<rceil>)"

fun py_int :: "pyval \<Rightarrow> pyerr + int" where
  "py_int (PInt n) = Inr n"
| "py_int (PFloat q) = Inr (trunc q)"
| "py_int (PStr s) =
     (case take_sign (strip s) of
        (sg, ds) \<Rightarrow>
          if ds \<noteq> [] \<and> list_all is_digit ds
          then Inr (sg * int (digits_val 0 ds))
          else Inl ValueError)"
| "py_int PNone = Inl TypeError"

text \<open>\<open>sep in s\<close> for a non-empty \<open>sep\<close>: some suffix of \<open>s\<close> starts with \<open>sep\<close>.\<close>

fun py_in :: "string \<Rightarrow> string \<Rightarrow> bool" where
  "py_in sep [] = (sep = [])"
| "py_in sep (c # cs) = (take (length sep) (c # cs) = sep \<or> py_in sep cs)"

text \<open>
  \<open>s.split(sep)\<close> for a non-empty \<open>sep\<close>: the pieces between the occurrences of
  \<open>sep\<close>, found left to right; \<open>acc\<close> holds the current piece, reversed.
\<close>

fun split_acc :: "string \<Rightarrow> string \<Rightarrow> string \<Rightarrow> string list" where
  "split_acc sep acc [] = [rev acc]"
| "split_acc sep acc (c # cs) =
     (if sep \<noteq> [] \<and> take (length sep) (c # cs) = sep
      then rev acc # split_acc sep [] (drop (length sep - 1) cs)
      else split_acc sep (c # acc) cs)"

definition py_split :: "string \<Rightarrow> string \<Rightarrow> string list" where
  "py_split sep s = split_acc sep [] s"

text \<open>\<open>xs[i]\<close> for an index that is not negative.\<close>

definition py_index :: "'a list \<Rightarrow> nat \<Rightarrow> pyerr + 'a" where
  "py_index xs i = (if i < length xs then Inr (xs ! i) else Inl IndexError)"

section \<open>0. Utility: drop\_to\_10won\<close>

text \<open>
  \<open>return (int(amount) // 10) * 10\<close> inside \<open>try\<close>, with \<open>except Exception: return 0\<close>.
\<close>

definition drop_to_10won :: "pyval \<Rightarrow> pyerr + pyval" where
  "drop_to_10won amount =
     (case py_int amount of
        Inl e \<Rightarrow> Inr (PInt 0)
      | Inr n \<Rightarrow> Inr (PInt ((n div 10) * 10)))"

section \<open>1. NiceRecord: parsing a duration\<close>

text \<open>
  The dataclass \<open>NiceRecord\<close>, with the types of its annotations: \<open>hours_per_day\<close> is a
  number. The unit markers of \<open>duration_raw\<close> are the Korean words for day, hour and
  minute, given by the bytes of their UTF-8 encoding.
\<close>

record NiceRecord =
  leave_type :: string
  duration_raw :: string
  hours_per_day :: rat

definition mark_day :: string where
  "mark_day = [CHR 0xEC, CHR 0x9D, CHR 0xBC]"

definition mark_hour :: string where
  "mark_hour = [CHR 0xEC, CHR 0x8B, CHR 0x9C, CHR 0xEA, CHR 0xB0, CHR 0x84]"

definition mark_minute :: string where
  "mark_minute = [CHR 0xEB, CHR 0xB6, CHR 0x84]"

text \<open>The dictionary \<open>{"days": .., "hours": .., "minutes": ..}\<close> that parsing returns.\<close>

record parsed =
  days :: rat
  hours :: rat
  minutes :: rat

text \<open>
  One \<open>if marker in txt: try: ... except Exception: pass\<close> block of \<open>parse_duration\<close>
  for the day and the hour marker: \<open>val = txt.split(marker)[0]\<close>, the unit's variable
  becomes \<open>float(val)\<close>, \<open>txt\<close> becomes \<open>txt.split(marker)[1]\<close>. The block takes the
  unit's current value and \<open>txt\<close> and returns both; a fault leaves what was not yet
  assigned as it was.
\<close>

definition take_unit :: "string \<Rightarrow> rat \<times> string \<Rightarrow> rat \<times> string" where
  "take_unit marker st =
     (case st of
        (cur, txt) \<Rightarrow>
          if py_in marker txt then
            (case py_index (py_split marker txt) 0 of
               Inl e \<Rightarrow> (cur, txt)
             | Inr val \<Rightarrow>
                 (case py_float val of
                    Inl e \<Rightarrow> (cur, txt)
                  | Inr v \<Rightarrow>
                      (case py_index (py_split marker txt) 1 of
                         Inl e \<Rightarrow> (v, txt)
                       | Inr rest \<Rightarrow> (v, rest))))
          else (cur, txt))"

text \<open>The block for the minute marker, which does not assign \<open>txt\<close>.\<close>

definition take_minutes :: "rat \<Rightarrow> string \<Rightarrow> rat" where
  "take_minutes cur txt =
     (if py_in mark_minute txt then
        (case py_index (py_split mark_minute txt) 0 of
           Inl e \<Rightarrow> cur
         | Inr val \<Rightarrow> (case py_float val of Inl e \<Rightarrow> cur | Inr v \<Rightarrow> v))
      else cur)"

text \<open>
  \<open>NiceRecord.parse_duration\<close>. The last block reads a bare number as a count of days
  when the three units are all zero; it applies \<open>float\<close> to \<open>duration_raw\<close> itself.
\<close>

definition parse_duration :: "NiceRecord \<Rightarrow> pyerr + parsed" where
  "parse_duration r =
     (let txt = strip (duration_raw r) in
      if txt = [] then Inr \<lparr>days = 0, hours = 0, minutes = 0\<rparr>
      else
        (case take_unit mark_day (0, txt) of
           (d, txt1) \<Rightarrow>
             (case take_unit mark_hour (0, txt1) of
                (h, txt2) \<Rightarrow>
                  let m = take_minutes 0 txt2;
                      d' = (if d = 0 \<and> h = 0 \<and> m = 0
                            then (case py_float (duration_raw r) of
                                    Inl e \<Rightarrow> d
                                  | Inr v \<Rightarrow> v)
                            else d)
                  in Inr \<lparr>days = d', hours = h, minutes = m\<rparr>)))"

text \<open>\<open>NiceRecord.to_total_hours\<close>: the duration in decimal hours.\<close>

definition to_total_hours :: "NiceRecord \<Rightarrow> pyerr + rat" where
  "to_total_hours r =
     (case parse_duration r of
        Inl e \<Rightarrow> Inl e
      | Inr d \<Rightarrow> Inr (days d * hours_per_day r + hours d + minutes d / 60))"

section \<open>2. Aggregating the records\<close>










section \<open>3. The rule profiles\<close>




section \<open>4. The suggested number of days\<close>

text \<open>
  A dictionary is a map from its keys to values; \<open>d.get(k, default)\<close> is \<open>dict_get\<close>.
  Sequencing of steps that can raise is \<open>bind_err\<close>: the first exception ends the call.
\<close>

type_synonym pydict = "string \<rightharpoonup> pyval"

definition dict_get :: "pydict \<Rightarrow> string \<Rightarrow> pyval \<Rightarrow> pyval" where
  "dict_get d k dflt = (case d k of None \<Rightarrow> dflt | Some v \<Rightarrow> v)"

definition bind_err :: "pyerr + 'a \<Rightarrow> ('a \<Rightarrow> pyerr + 'b) \<Rightarrow> pyerr + 'b" where
  "bind_err m f = (case m of Inl e \<Rightarrow> Inl e | Inr x \<Rightarrow> f x)"

text \<open>
  The dictionary \<open>suggest_annual_days\<close> returns. Its \<open>description\<close>, an f-string that
  renders the inputs for display, is left out: formatting a value of the model never
  raises, and nothing below reads the text.
\<close>

record suggestion_d =
  suggested_days :: pyval

text \<open>The branch \<open>days = min(fm, 11)\<close> that the four formulas share below one year.\<close>

definition first_year :: "pyval \<Rightarrow> pyerr + suggestion_d" where
  "first_year fm = bind_err (py_min fm (PInt 11)) (\<lambda>days. Inr \<lparr>suggested_days = days\<rparr>)"

definition suggest_annual_days :: "string \<Rightarrow> pydict \<Rightarrow> pyerr + suggestion_d" where
  "suggest_annual_days rule_id svc =
     (let fy = dict_get svc ''full_years'' (PInt 0);
          rate = dict_get svc ''attendance_rate'' (PInt 0);
          fm = dict_get svc ''full_months'' (PInt 0)
      in
      if rule_id = ''law_basic'' then
        bind_err (py_lt fy (PInt 1)) (\<lambda>c.
          if c then first_year fm
          else bind_err (py_lt rate (PInt 80)) (\<lambda>c'.
            if c' then Inr \<lparr>suggested_days = fm\<rparr>
            else
              bind_err (py_sub fy (PInt 1)) (\<lambda>y.
              bind_err (py_floordiv y (PInt 2)) (\<lambda>q.
              bind_err (py_min (PInt 10) q) (\<lambda>m.
              bind_err (py_max (PInt 0) m) (\<lambda>extra.
              bind_err (py_add (PInt 15) extra) (\<lambda>days.
              Inr \<lparr>suggested_days = days\<rparr>)))))))
      else if rule_id = ''gw_school_cba'' then
        bind_err (py_lt fy (PInt 1)) (\<lambda>c.
          if c then first_year fm
          else bind_err (py_ge rate (PInt 80)) (\<lambda>c'.
            if c' then Inr \<lparr>suggested_days = PInt 26\<rparr>
            else Inr \<lparr>suggested_days = fm\<rparr>))
      else if rule_id = ''gw_institute_cba'' then
        bind_err (py_lt fy (PInt 1)) (\<lambda>c.
          if c then first_year fm
          else bind_err (py_ge rate (PInt 80)) (\<lambda>c'.
            if c' then Inr \<lparr>suggested_days = PInt 25\<rparr>
            else Inr \<lparr>suggested_days = fm\<rparr>))
      else if rule_id = ''gw_wage_guideline'' then
        bind_err (py_lt fy (PInt 1)) (\<lambda>c.
          if c then first_year fm
          else Inr \<lparr>suggested_days = PInt 26\<rparr>)
      else Inr \<lparr>suggested_days = PNone\<rparr>)"

section \<open>5. The daily wage\<close>


section \<open>6. The whole pipeline\<close>

record rule_d =
  r_id :: string
  r_name :: string

record payout_d =
  granted_days :: pyval
  used_days :: pyval
  unused_days :: pyval
  daily_wage_raw :: pyval
  payout_raw :: pyval
  daily_wage_rounded :: pyval
  payout_rounded :: pyval

text \<open>The three parts of the result; \<open>rule\<close> holds the profile's \<open>id\<close> and \<open>name\<close>.\<close>

record pipeline_result =
  rule :: rule_d
  suggestion :: suggestion_d
  payout :: payout_d


section \<open>Properties\<close>

subsection \<open>Sequencing and rounding\<close>

lemma bind_err_Inr [simp]: "bind_err (Inr x) f = f x"
  by (simp add: bind_err_def)

lemma bind_err_Inl [simp]: "bind_err (Inl e) f = Inl e"
  by (simp add: bind_err_def)

lemma div10_bounds: "(n div 10) * 10 \<le> (n::int) \<and> n < (n div 10) * 10 + 10"
  by presburger

lemma drop_to_10won_PInt: "drop_to_10won (PInt n) = Inr (PInt ((n div 10) * 10))"
  by (simp add: drop_to_10won_def)

lemma drop_to_10won_PFloat: "drop_to_10won (PFloat q) = Inr (PInt ((trunc q div 10) * 10))"
  by (simp add: drop_to_10won_def)

lemma drop_to_10won_returns: "\<exists>n. drop_to_10won v = Inr (PInt n) \<and> 10 dvd n"
  by (cases "py_int v") (simp_all add: drop_to_10won_def)

text \<open>
  Claim C3. \<open>drop_to_10won\<close> always returns an integer multiple of 10; for a number that
  is not negative the result \<open>n\<close> is the nearest lower multiple, \<open>n \<le> amount < n + 10\<close>;
  11111 gives 11110, 14567 gives 14560 and 0 gives 0.
\<close>

theorem drop_to_10won_lower_multiple:
  "(\<exists>n. drop_to_10won v = Inr (PInt n) \<and> 10 dvd n \<and>
        (\<forall>q. num_of v = Some q \<and> 0 \<le> q \<longrightarrow> of_int n \<le> q \<and> q < of_int n + 10))
   \<and> drop_to_10won (PInt 11111) = Inr (PInt 11110)
   \<and> drop_to_10won (PInt 14567) = Inr (PInt 14560)
   \<and> drop_to_10won (PInt 0) = Inr (PInt 0)"
proof -
  have general: "\<exists>n. drop_to_10won v = Inr (PInt n) \<and> 10 dvd n \<and>
        (\<forall>q. num_of v = Some q \<and> 0 \<le> q \<longrightarrow> of_int n \<le> q \<and> q < of_int n + 10)"
  proof (cases v)
    case PNone
    then show ?thesis by (simp add: drop_to_10won_def)
  next
    case (PInt k)
    have "(of_int ((k div 10) * 10) :: rat) \<le> of_int k"
      using div10_bounds [of k] by (simp only: of_int_le_iff)
    moreover have "(of_int k :: rat) < of_int ((k div 10) * 10 + 10)"
      using div10_bounds [of k] by (simp only: of_int_less_iff)
    ultimately show ?thesis
      using PInt by (simp add: drop_to_10won_PInt)
  next
    case (PFloat q)
    show ?thesis
    proof (cases "0 \<le> q")
      case True
      let ?f = "\<lfloor>q\<rfloor>"
      have t: "trunc q = ?f" using True by (simp add: trunc_def)
      have lo: "(of_int ((?f div 10) * 10) :: rat) \<le> q"
      proof -
        have "(of_int ((?f div 10) * 10) :: rat) \<le> of_int ?f"
          using div10_bounds [of ?f] by (simp only: of_int_le_iff)
        also have "\<dots> \<le> q" by simp
        finally show ?thesis .
      qed
      have hi: "q < of_int ((?f div 10) * 10 + 10)"
      proof -
        have "?f + 1 \<le> (?f div 10) * 10 + 10"
          using div10_bounds [of ?f] by linarith
        then have "(of_int (?f + 1) :: rat) \<le> of_int ((?f div 10) * 10 + 10)"
          by (simp only: of_int_le_iff)
        moreover have "q < of_int (?f + 1)" by linarith
        ultimately show ?thesis by linarith
      qed
      show ?thesis using PFloat t lo hi by (simp add: drop_to_10won_PFloat)
    next
      case False
      then show ?thesis using PFloat by (simp add: drop_to_10won_PFloat)
    qed
  next
    case (PStr s)
    then show ?thesis using drop_to_10won_returns [of v] by auto
  qed
  show ?thesis using general by (simp add: drop_to_10won_PInt)
qed

text \<open>The amount 14567.5 is cut to 14560.\<close>

theorem drop_to_10won_lower_multiple_witness:
  "drop_to_10won (PFloat (29135 / 2)) = Inr (PInt 14560)
   \<and> (10 :: int) dvd 14560
   \<and> (14560 :: rat) \<le> 29135 / 2 \<and> (29135 / 2 :: rat) < 14560 + 10"
proof -
  have e: "drop_to_10won (PFloat (29135 / 2)) = Inr (PInt 14560)"
    by code_simp
  obtain n where n: "drop_to_10won (PFloat (29135 / 2)) = Inr (PInt n)" "10 dvd n"
    "\<forall>q. num_of (PFloat (29135 / 2)) = Some q \<and> 0 \<le> q \<longrightarrow> of_int n \<le> q \<and> q < of_int n + 10"
    using drop_to_10won_lower_multiple [of "PFloat (29135 / 2)"] by blast
  from n(1) e have "n = 14560" by simp
  with n(2) n(3) e show ?thesis by simp
qed

subsection \<open>The entitlement formulas\<close>

lemma py_min_PInt: "py_min (PInt a) (PInt b) = Inr (PInt (min a b))"
  by (simp add: py_min_def min_def)

lemma py_max_PInt: "py_max (PInt a) (PInt b) = Inr (PInt (max a b))"
  by (simp add: py_max_def py_gt_def max_def)

lemma py_lt_num:
  "num_of a = Some x \<Longrightarrow> num_of b = Some y \<Longrightarrow> py_lt a b = Inr (x < y)"
  by (cases a; cases b) auto

text \<open>
  Claim C1. With integer \<open>full_years\<close> and \<open>full_months\<close> and a numeric
  \<open>attendance_rate\<close> (a missing key counts as 0), rule \<open>law_basic\<close> suggests
  \<open>min(full_months, 11)\<close> below one full year, \<open>full_months\<close> (uncapped) from one year
  on with a rate below 80, and otherwise 15 plus \<open>(full_years - 1) // 2\<close> clamped to
  0..10. The bounds the claim puts on the inputs are not needed.
\<close>

theorem law_basic_suggested_days:
  assumes fy: "dict_get svc ''full_years'' (PInt 0) = PInt fy"
    and fm: "dict_get svc ''full_months'' (PInt 0) = PInt fm"
    and rate: "num_of (dict_get svc ''attendance_rate'' (PInt 0)) = Some r"
  shows "suggest_annual_days ''law_basic'' svc =
           Inr \<lparr>suggested_days =
                  PInt (if fy < 1 then min fm 11
                        else if r < 80 then fm
                        else 15 + max 0 (min 10 ((fy - 1) div 2)))\<rparr>"
proof -
  have lt: "py_lt (dict_get svc ''attendance_rate'' (PInt 0)) (PInt 80) = Inr (r < 80)"
    using py_lt_num [OF rate, of "PInt 80" 80] by simp
  show ?thesis
    by (simp add: suggest_annual_days_def fy fm lt first_year_def py_min_PInt py_max_PInt
        min.commute)
qed

text \<open>Three full years at a rate of 95 give 16 days.\<close>

theorem law_basic_suggested_days_witness:
  "suggest_annual_days ''law_basic''
     [''full_years'' \<mapsto> PInt 3, ''full_months'' \<mapsto> PInt 0, ''attendance_rate'' \<mapsto> PInt 95]
   = Inr \<lparr>suggested_days = PInt 16\<rparr>"
  using law_basic_suggested_days
    [of "[''full_years'' \<mapsto> PInt 3, ''full_months'' \<mapsto> PInt 0, ''attendance_rate'' \<mapsto> PInt 95]"
        3 0 95]
  by (simp add: dict_get_def)

subsection \<open>The daily wage\<close>








subsection \<open>When the evaluator, the wage calculation and the pipeline return\<close>










lemma is_num_PInt [simp]: "is_num (PInt n)"
  by (simp add: is_num_def)










subsection \<open>The payout\<close>





subsection \<open>The custom profile\<close>



subsection \<open>Parsing a duration\<close>

lemma parse_duration_returns: "\<exists>d. parse_duration r = Inr d"
  by (simp add: parse_duration_def Let_def split: prod.splits)

text \<open>
  Claim C4. The decimal hours of a record are \<open>days * hours_per_day + hours +
  minutes / 60\<close> of the triple \<open>parse_duration\<close> returns; one day and five hours at 8
  hours a day are 13 hours, and the bare number 2.5 at 8 hours a day is 20 hours.
\<close>

theorem to_total_hours_formula:
  "(\<exists>d. parse_duration r = Inr d
        \<and> to_total_hours r = Inr (days d * hours_per_day r + hours d + minutes d / 60))
   \<and> to_total_hours \<lparr>leave_type = lt, duration_raw = ''1'' @ mark_day @ ''5'' @ mark_hour,
                      hours_per_day = 8\<rparr> = Inr 13
   \<and> to_total_hours \<lparr>leave_type = lt, duration_raw = ''2.5'', hours_per_day = 8\<rparr> = Inr 20"
proof -
  have formula: "\<exists>d. parse_duration r = Inr d
        \<and> to_total_hours r = Inr (days d * hours_per_day r + hours d + minutes d / 60)"
    using parse_duration_returns [of r] by (auto simp: to_total_hours_def)
  have day_hour: "to_total_hours \<lparr>leave_type = lt,
      duration_raw = ''1'' @ mark_day @ ''5'' @ mark_hour, hours_per_day = 8\<rparr> = Inr 13"
    by (simp add: to_total_hours_def parse_duration_def take_unit_def take_minutes_def
        mark_day_def mark_hour_def mark_minute_def py_split_def py_index_def py_float_def
        strip_def is_space_def is_digit_def exponent_of_def)
  have bare: "to_total_hours \<lparr>leave_type = lt, duration_raw = ''2.5'', hours_per_day = 8\<rparr>
      = Inr 20"
    by (simp add: to_total_hours_def parse_duration_def take_unit_def take_minutes_def
        mark_day_def mark_hour_def mark_minute_def py_split_def py_index_def py_float_def
        strip_def is_space_def is_digit_def exponent_of_def)
  show ?thesis using formula day_hour bare by simp
qed

lemma set_strip: "set (strip s) \<subseteq> set s"
proof -
  have "set (strip s) \<subseteq> set (dropWhile is_space s)"
    unfolding strip_def using set_dropWhileD [of _ is_space "rev (dropWhile is_space s)"]
    by auto
  also have "\<dots> \<subseteq> set s"
    using set_dropWhileD [of _ is_space s] by auto
  finally show ?thesis .
qed

lemma take_sign_no_minus: "CHR ''-'' \<notin> set t \<Longrightarrow> fst (take_sign t) = 1"
  by (cases t) auto

lemma py_float_nonneg:
  assumes "CHR ''-'' \<notin> set s" and "py_float s = Inr v"
  shows "0 \<le> v"
proof -
  obtain sg u where su: "take_sign (strip s) = (sg, u)"
    by (cases "take_sign (strip s)")
  have "CHR ''-'' \<notin> set (strip s)"
    using assms(1) set_strip [of s] by auto
  from take_sign_no_minus [OF this] su have sg: "sg = 1" by simp
  have pos: "0 \<le> (of_nat a + of_nat b / 10 ^ k) * (10::rat) powi ex" for a b :: nat and k ex
    by (intro mult_nonneg_nonneg add_nonneg_nonneg divide_nonneg_nonneg zero_le_power_int)
      simp_all
  from assms(2) show ?thesis
    unfolding py_float_def su sg
    by (auto simp: Let_def pos split: if_splits sum.splits)
qed

lemma split_acc_set:
  "p \<in> set (split_acc sep acc s) \<Longrightarrow> set p \<subseteq> set acc \<union> set s"
proof (induction sep acc s rule: split_acc.induct)
  case (1 sep acc)
  then show ?case by simp
next
  case (2 sep acc c cs)
  show ?case
  proof (cases "sep \<noteq> [] \<and> take (length sep) (c # cs) = sep")
    case True
    with "2.prems" have "p = rev acc \<or> p \<in> set (split_acc sep [] (drop (length sep - 1) cs))"
      by simp
    then show ?thesis
    proof
      assume "p = rev acc"
      then show ?thesis by auto
    next
      assume "p \<in> set (split_acc sep [] (drop (length sep - 1) cs))"
      with "2.IH"(1) True have "set p \<subseteq> set (drop (length sep - 1) cs)"
        by simp
      also have "\<dots> \<subseteq> set cs" by (rule set_drop_subset)
      finally show ?thesis by auto
    qed
  next
    case False
    with "2.prems" have "p \<in> set (split_acc sep (c # acc) cs)"
      by auto
    with "2.IH"(2) False show ?thesis by auto
  qed
qed

lemma py_index_split_set:
  "py_index (py_split marker txt) i = Inr p \<Longrightarrow> set p \<subseteq> set txt"
  using split_acc_set [of p marker "[]" "txt"]
  by (auto simp: py_index_def py_split_def split: if_splits)

lemma take_unit_nonneg:
  assumes "CHR ''-'' \<notin> set txt" and "0 \<le> cur" and "take_unit marker (cur, txt) = (v, txt')"
  shows "0 \<le> v \<and> CHR ''-'' \<notin> set txt'"
proof (cases "py_in marker txt")
  case False
  with assms show ?thesis by (simp add: take_unit_def)
next
  case True
  show ?thesis
  proof (cases "py_index (py_split marker txt) 0")
    case (Inl e)
    with True assms show ?thesis by (simp add: take_unit_def)
  next
    case val: (Inr val)
    have nv: "CHR ''-'' \<notin> set val"
      using py_index_split_set [OF val] assms(1) by auto
    show ?thesis
    proof (cases "py_float val")
      case (Inl e)
      with True val assms show ?thesis by (simp add: take_unit_def)
    next
      case fl: (Inr x)
      have x: "0 \<le> x" using py_float_nonneg [OF nv fl] .
      show ?thesis
      proof (cases "py_index (py_split marker txt) 1")
        case (Inl e)
        with True val fl x assms show ?thesis by (simp add: take_unit_def)
      next
        case rest: (Inr rest)
        have "CHR ''-'' \<notin> set rest"
          using py_index_split_set [OF rest] assms(1) by auto
        with True val fl rest x assms show ?thesis by (simp add: take_unit_def)
      qed
    qed
  qed
qed

lemma take_minutes_nonneg:
  assumes "CHR ''-'' \<notin> set txt" and "0 \<le> cur"
  shows "0 \<le> take_minutes cur txt"
proof (cases "py_index (py_split mark_minute txt) 0")
  case (Inl e)
  with assms show ?thesis by (simp add: take_minutes_def)
next
  case val: (Inr val)
  have nv: "CHR ''-'' \<notin> set val"
    using py_index_split_set [OF val] assms(1) by auto
  show ?thesis
  proof (cases "py_float val")
    case (Inl e)
    with val assms show ?thesis by (simp add: take_minutes_def)
  next
    case (Inr x)
    with py_float_nonneg [OF nv Inr] val assms show ?thesis
      by (simp add: take_minutes_def)
  qed
qed

lemma parse_duration_nonneg:
  assumes nm: "CHR ''-'' \<notin> set (duration_raw r)" and p: "parse_duration r = Inr d"
  shows "0 \<le> days d \<and> 0 \<le> hours d \<and> 0 \<le> minutes d"
proof (cases "strip (duration_raw r) = []")
  case True
  with p show ?thesis by (auto simp: parse_duration_def)
next
  case False
  let ?txt = "strip (duration_raw r)"
  have n0: "CHR ''-'' \<notin> set ?txt"
    using nm set_strip [of "duration_raw r"] by auto
  obtain dd txt1 where u1: "take_unit mark_day (0, ?txt) = (dd, txt1)"
    by (cases "take_unit mark_day (0, ?txt)")
  obtain h txt2 where u2: "take_unit mark_hour (0, txt1) = (h, txt2)"
    by (cases "take_unit mark_hour (0, txt1)")
  from take_unit_nonneg [OF n0 _ u1] have d1: "0 \<le> dd" "CHR ''-'' \<notin> set txt1" by simp_all
  from take_unit_nonneg [OF d1(2) _ u2] have d2: "0 \<le> h" "CHR ''-'' \<notin> set txt2" by simp_all
  have m: "0 \<le> take_minutes 0 txt2"
    using take_minutes_nonneg [OF d2(2), of 0] by simp
  have bare: "0 \<le> (case py_float (duration_raw r) of Inl e \<Rightarrow> dd | Inr v \<Rightarrow> v)"
    using py_float_nonneg [OF nm] d1(1) by (cases "py_float (duration_raw r)") auto
  from p False have
    "d = \<lparr>days = (if dd = 0 \<and> h = 0 \<and> take_minutes 0 txt2 = 0
                  then (case py_float (duration_raw r) of Inl e \<Rightarrow> dd | Inr v \<Rightarrow> v)
                  else dd),
          hours = h, minutes = take_minutes 0 txt2\<rparr>"
    by (simp add: parse_duration_def Let_def u1 u2)
  with d1(1) d2(1) m bare show ?thesis by simp
qed

text \<open>
  Claim C9, as stated, fails: the number in front of a marker, and a bare number, keep
  their sign, so the text \<open>-2.5\<close> is parsed to \<open>days = -2.5\<close>.
\<close>

theorem parse_duration_negative_days:
  "parse_duration \<lparr>leave_type = ''sick'', duration_raw = ''-2.5'', hours_per_day = 8\<rparr>
     = Inr \<lparr>days = - (5 / 2), hours = 0, minutes = 0\<rparr>
   \<and> days \<lparr>days = - (5 / 2), hours = 0, minutes = 0\<rparr> < 0"
  by (simp add: parse_duration_def take_unit_def take_minutes_def
      mark_day_def mark_hour_def mark_minute_def py_float_def
      strip_def is_space_def is_digit_def exponent_of_def)

text \<open>
  Claim C9, amended. A text made only of digits, decimal points, whitespace and the
  three unit markers is parsed to a triple whose components are all at least 0, and a
  blank text to three zeros.
\<close>

theorem parse_duration_unsigned_nonneg:
  assumes "\<forall>c \<in> set (duration_raw r).
             is_digit c \<or> is_space c \<or> c = CHR ''.''
             \<or> c \<in> set (mark_day @ mark_hour @ mark_minute)"
  shows "(\<exists>d. parse_duration r = Inr d \<and> 0 \<le> days d \<and> 0 \<le> hours d \<and> 0 \<le> minutes d)
       \<and> (strip (duration_raw r) = [] \<longrightarrow>
            parse_duration r = Inr \<lparr>days = 0, hours = 0, minutes = 0\<rparr>)"
proof -
  have minus: "\<not> (is_digit CHR ''-'' \<or> is_space CHR ''-'' \<or> CHR ''-'' = CHR ''.''
                 \<or> CHR ''-'' \<in> set (mark_day @ mark_hour @ mark_minute))"
    by (simp add: is_digit_def is_space_def mark_day_def mark_hour_def mark_minute_def)
  have nm: "CHR ''-'' \<notin> set (duration_raw r)"
    using assms minus by blast
  obtain d where d: "parse_duration r = Inr d"
    using parse_duration_returns by blast
  from parse_duration_nonneg [OF nm d] d
  have "\<exists>d. parse_duration r = Inr d \<and> 0 \<le> days d \<and> 0 \<le> hours d \<and> 0 \<le> minutes d"
    by blast
  moreover have "strip (duration_raw r) = [] \<longrightarrow>
      parse_duration r = Inr \<lparr>days = 0, hours = 0, minutes = 0\<rparr>"
    by (simp add: parse_duration_def)
  ultimately show ?thesis by blast
qed

text \<open>Three hours and thirty minutes.\<close>

theorem parse_duration_unsigned_nonneg_witness:
  "\<exists>d. parse_duration \<lparr>leave_type = ''sick'',
                        duration_raw = ''3'' @ mark_hour @ '' 30'' @ mark_minute,
                        hours_per_day = 8\<rparr> = Inr d
       \<and> d = \<lparr>days = 0, hours = 3, minutes = 30\<rparr>
       \<and> 0 \<le> days d \<and> 0 \<le> hours d \<and> 0 \<le> minutes d"
proof -
  let ?r = "\<lparr>leave_type = ''sick'', duration_raw = ''3'' @ mark_hour @ '' 30'' @ mark_minute,
             hours_per_day = 8\<rparr>"
  have chars: "\<forall>c \<in> set (duration_raw ?r).
             is_digit c \<or> is_space c \<or> c = CHR ''.''
             \<or> c \<in> set (mark_day @ mark_hour @ mark_minute)"
    by (simp add: is_digit_def is_space_def mark_day_def mark_hour_def mark_minute_def)
  have e: "parse_duration ?r = Inr \<lparr>days = 0, hours = 3, minutes = 30\<rparr>"
    by (simp add: parse_duration_def take_unit_def take_minutes_def
      mark_day_def mark_hour_def mark_minute_def py_split_def py_index_def py_float_def
      strip_def is_space_def is_digit_def exponent_of_def)
  from parse_duration_unsigned_nonneg [OF chars] e show ?thesis by auto
qed

subsection \<open>Which faults are caught\<close>




subsection \<open>Aggregation\<close>















end
